theory Spec2Isabelle
  imports Complex_Main "HOL-Library.Word"
begin

section \<open>Strings and values of the host language\<close>

text \<open>
  The front end is one browser script, \<^verbatim>\<open>src/front-end/script.js\<close>. Its strings are
  sequences of UTF-16 code units, so a string is a list of 16-bit words here, and the
  literals of the script are written with \<open>ascii\<close> plus explicit code units where the
  script leaves ASCII (and for the quote characters and the line feed).
\<close>

type_synonym jschar = "16 word"
type_synonym jsstring = "jschar list"

definition ascii :: "string \<Rightarrow> jsstring" where
  "ascii s = map of_char s"

definition nl :: jsstring where
  "nl = [0x0A]"

definition dq :: jsstring where
  "dq = [0x22]"

text \<open>
  \<^verbatim>\<open>String.prototype.trim\<close> removes the code units of WhiteSpace and LineTerminator
  from both ends.
\<close>

definition isWhiteSpace :: "jschar \<Rightarrow> bool" where
  "isWhiteSpace c =
     (c \<in> set [0x09, 0x0A, 0x0B, 0x0C, 0x0D, 0x20, 0xA0, 0x1680, 0x2028, 0x2029,
               0x202F, 0x205F, 0x3000, 0xFEFF]
      \<or> (0x2000 \<le> c \<and> c \<le> 0x200A))"

definition trim :: "jsstring \<Rightarrow> jsstring" where
  "trim s = rev (dropWhile isWhiteSpace (rev (dropWhile isWhiteSpace s)))"

text \<open>\<^verbatim>\<open>s.includes(t)\<close>: \<open>t\<close> occurs in \<open>s\<close> as a contiguous run.\<close>

fun js_includes :: "jsstring \<Rightarrow> jsstring \<Rightarrow> bool" where
  "js_includes [] t = (t = [])"
| "js_includes (c # s) t = (take (length t) (c # s) = t \<or> js_includes s t)"

text \<open>A non-negative integer in a template literal prints in decimal.\<close>

fun decimal :: "nat \<Rightarrow> jsstring" where
  "decimal n =
     (if n < 10 then [of_nat (48 + n)]
      else decimal (n div 10) @ [of_nat (48 + n mod 10)])"

text \<open>
  Reading \<^verbatim>\<open>table[key]\<close> on an object literal gives the own property when the literal
  has that key; otherwise the lookup goes on to \<^verbatim>\<open>Object.prototype\<close>, which in a
  browser carries the twelve names below (eleven built-in functions, and the accessor
  \<^verbatim>\<open>__proto__\<close> that yields the prototype object); otherwise it is \<^verbatim>\<open>undefined\<close>.
  An inherited value is truthy and is neither a string nor an array.
\<close>

datatype 'a jsval = Val 'a | Builtin jsstring | Undefined

definition object_prototype_keys :: "jsstring list" where
  "object_prototype_keys =
     [ascii ''constructor'', ascii ''hasOwnProperty'', ascii ''isPrototypeOf'',
      ascii ''propertyIsEnumerable'', ascii ''toLocaleString'', ascii ''toString'',
      ascii ''valueOf'', ascii ''__proto__'', ascii ''__defineGetter__'',
      ascii ''__defineSetter__'', ascii ''__lookupGetter__'', ascii ''__lookupSetter__'']"

definition obj_get :: "(jsstring \<times> 'a) list \<Rightarrow> jsstring \<Rightarrow> 'a jsval" where
  "obj_get table key =
     (case map_of table key of
        Some v \<Rightarrow> Val v
      | None \<Rightarrow> if key \<in> set object_prototype_keys then Builtin key else Undefined)"

text \<open>\<^verbatim>\<open>a || b\<close> on a value that is a string when it is an own property.\<close>

definition js_or :: "jsstring jsval \<Rightarrow> jsstring jsval \<Rightarrow> jsstring jsval" where
  "js_or a b = (case a of Val v \<Rightarrow> if v = [] then b else a | Builtin k \<Rightarrow> a | Undefined \<Rightarrow> b)"

text \<open>
  What the browser itself decides is a parameter: the text a built-in object converts
  to; the message of the TypeError raised by reading a property of \<^verbatim>\<open>null\<close>; the message
  of the TypeError raised by converting to a string an object that has no usable
  \<^verbatim>\<open>toString\<close>; and the product of the number that \<^verbatim>\<open>Math.random()\<close> returns with the
  length of an array, which is the exact product rounded to a double.
\<close>

record platform =
  builtin_text :: "jsstring \<Rightarrow> jsstring"
  null_read_text :: jsstring
  convert_text :: jsstring
  rounded_product :: "real \<Rightarrow> nat \<Rightarrow> real"

text \<open>Conversion to a string, as a template literal or a string attribute does it.\<close>

definition toString :: "platform \<Rightarrow> jsstring jsval \<Rightarrow> jsstring" where
  "toString pf v =
     (case v of Val s \<Rightarrow> s | Builtin k \<Rightarrow> builtin_text pf k | Undefined \<Rightarrow> ascii ''undefined'')"

text \<open>
  Assigning to \<^verbatim>\<open>textContent\<close>, a nullable string attribute: \<^verbatim>\<open>undefined\<close> and
  \<^verbatim>\<open>null\<close> give the empty text.
\<close>

definition textContent :: "platform \<Rightarrow> jsstring jsval \<Rightarrow> jsstring" where
  "textContent pf v = (case v of Undefined \<Rightarrow> [] | _ \<Rightarrow> toString pf v)"

text \<open>\<^verbatim>\<open>xs[i]\<close> for an array and an integral index: \<^verbatim>\<open>undefined\<close> out of range.\<close>

definition js_index :: "'a list \<Rightarrow> int \<Rightarrow> 'a jsval" where
  "js_index xs i = (if 0 \<le> i \<and> i < int (length xs) then Val (xs ! nat i) else Undefined)"

section \<open>The page: messages, notices, timers, session state\<close>

datatype sender = User | Bot

text \<open>
  One \<^verbatim>\<open>div.message\<close> under \<^verbatim>\<open>#chatMessages\<close>: its class (\<^verbatim>\<open>user-message\<close> or
  \<^verbatim>\<open>bot-message\<close>) and the text of its \<^verbatim>\<open>.message-sender\<close>, \<^verbatim>\<open>.message-time\<close>
  and \<^verbatim>\<open>.message-text\<close> children.
\<close>

record message =
  m_class :: sender
  m_sender :: jsstring
  m_time :: jsstring
  m_text :: jsstring

text \<open>The \<^verbatim>\<open>.status-message\<close> element; \<open>st_id\<close> tells one element from the next.\<close>

record status =
  st_id :: nat
  st_text :: jsstring
  st_type :: jsstring

datatype timer = HideStatus | RemoveStatus nat | Fallback jsstring

record request =
  url :: jsstring
  req_message :: jsstring
  req_language :: jsstring
  req_category :: jsstring

datatype effect =
    Appended message
  | Shown jsstring jsstring
  | Fetch request
  | Cleared
  | Download jsstring jsstring

text \<open>
  The globals of the script and the parts of the page it reads and writes. \<open>timers\<close>
  holds the pending \<^verbatim>\<open>setTimeout\<close> callbacks with their delays; \<open>effects\<close> records, oldest
  first, what the script did that is visible outside it. Styling (icons, colours,
  heights, scrolling, the active class of the category buttons) and console output are
  left out.
\<close>

record state =
  currentLanguage :: jsstring
  currentCategory :: jsstring
  isListening :: bool
  recognition :: "jsstring option"
  chatMessages :: "message list"
  messageInput :: jsstring
  placeholder :: jsstring
  statusMessage :: "status option"
  created :: nat
  timers :: "(nat \<times> timer) list"
  effects :: "effect list"

text \<open>
  The deployment context \<^verbatim>\<open>getApiEndpoint\<close> reads: the location of the page and the
  session storage. Where the page may not use storage (a document with an opaque origin,
  storage blocked in the browser) reading \<^verbatim>\<open>sessionStorage\<close> raises an error that has a
  message; otherwise the item \<^verbatim>\<open>backendUrl\<close> is a string or is not there.
\<close>

datatype storage = Unreadable jsstring | Item "jsstring option"

record page =
  protocol :: jsstring
  hostname :: jsstring
  port :: jsstring
  sessionStorage :: storage

text \<open>
  \<^verbatim>\<open>location.host\<close> and \<^verbatim>\<open>location.origin\<close> of a page served over http or https: the
  port is part of both unless it is the default one (then \<open>port\<close> is empty).
\<close>

definition host :: "page \<Rightarrow> jsstring" where
  "host p = (if port p = [] then hostname p else hostname p @ ascii '':'' @ port p)"

definition origin :: "page \<Rightarrow> jsstring" where
  "origin p = protocol p @ ascii ''//'' @ host p"

section \<open>The functions of the script\<close>

subsection \<open>Transient notices\<close>

text \<open>
  \<^verbatim>\<open>showStatusMessage\<close> removes the notice on display, if any, and shows a new one.
  \<^verbatim>\<open>hideStatusMessage\<close> takes the notice on display, if any, and removes that element
  300 ms later.
\<close>

definition showStatusMessage :: "jsstring \<Rightarrow> jsstring \<Rightarrow> state \<Rightarrow> state" where
  "showStatusMessage msg type s =
     s\<lparr>statusMessage := Some \<lparr>st_id = created s, st_text = msg, st_type = type\<rparr>,
       created := Suc (created s),
       effects := effects s @ [Shown msg type]\<rparr>"

definition hideStatusMessage :: "state \<Rightarrow> state" where
  "hideStatusMessage s =
     (case statusMessage s of
        None \<Rightarrow> s
      | Some el \<Rightarrow> s\<lparr>timers := timers s @ [(300, RemoveStatus (st_id el))]\<rparr>)"

subsection \<open>The language registry\<close>

definition languages :: "(jsstring \<times> jsstring) list" where
  "languages =
     [(ascii ''en'', ascii ''English''),
      (ascii ''id'', ascii ''Bahasa Indonesia''),
      (ascii ''ms'', ascii ''Bahasa Malaysia''),
      (ascii ''th'', [0xE44, 0xE17, 0xE22] @ ascii '' (Thai)''),
      (ascii ''vi'', ascii ''Ti'' @ [0x1EBF] @ ascii ''ng Vi'' @ [0x1EC7] @ ascii ''t''),
      (ascii ''tl'', ascii ''Filipino''),
      (ascii ''my'', [0x1019, 0x103C, 0x1014, 0x103A, 0x1019, 0x102C] @ ascii '' (Myanmar)''),
      (ascii ''km'', [0x1781, 0x17D2, 0x1798, 0x17C2, 0x179A] @ ascii '' (Khmer)''),
      (ascii ''lo'', [0xEA5, 0xEB2, 0xEA7] @ ascii '' (Lao)''),
      (ascii ''bn'', [0x9AC, 0x9BE, 0x982, 0x9B2, 0x9BE] @ ascii '' (Bengali)'')]"

definition getLanguageName :: "jsstring \<Rightarrow> jsstring jsval" where
  "getLanguageName code = js_or (obj_get languages code) (Val (ascii ''Unknown''))"

definition speechCodes :: "(jsstring \<times> jsstring) list" where
  "speechCodes =
     [(ascii ''en'', ascii ''en-US''), (ascii ''id'', ascii ''id-ID''),
      (ascii ''ms'', ascii ''ms-MY''), (ascii ''th'', ascii ''th-TH''),
      (ascii ''vi'', ascii ''vi-VN''), (ascii ''tl'', ascii ''tl-PH''),
      (ascii ''my'', ascii ''my-MM''), (ascii ''km'', ascii ''km-KH''),
      (ascii ''lo'', ascii ''lo-LA''), (ascii ''bn'', ascii ''bn-BD'')]"

definition getLanguageCode :: "jsstring \<Rightarrow> jsstring jsval" where
  "getLanguageCode code = js_or (obj_get speechCodes code) (Val (ascii ''en-US''))"

definition placeholders :: "(jsstring \<times> jsstring) list" where
  "placeholders =
     [(ascii ''en'', ascii ''Type your message here... (Press Enter to send)''),
      (ascii ''id'', ascii ''Ketik pesan Anda di sini... (Tekan Enter untuk mengirim)''),
      (ascii ''ms'', ascii ''Taip mesej anda di sini... (Tekan Enter untuk hantar)''),
      (ascii ''th'', [0xE1E, 0xE34, 0xE21, 0xE1E, 0xE4C, 0xE02, 0xE49, 0xE2D, 0xE04, 0xE27, 0xE32, 0xE21, 0xE02, 0xE2D, 0xE07, 0xE04, 0xE38, 0xE13, 0xE17, 0xE35, 0xE48, 0xE19, 0xE35, 0xE48] @ ascii ''... ('' @ [0xE01, 0xE14] @ ascii '' Enter '' @ [0xE40, 0xE1E, 0xE37, 0xE48, 0xE2D, 0xE2A, 0xE48, 0xE07] @ ascii '')''),
      (ascii ''vi'', ascii ''Nh'' @ [0x1EAD] @ ascii ''p tin nh'' @ [0x1EAF] @ ascii ''n c'' @ [0x1EE7] @ ascii ''a b'' @ [0x1EA1] @ ascii ''n t'' @ [0x1EA1] @ ascii ''i '' @ [0x111, 0xE2] @ ascii ''y... (Nh'' @ [0x1EA5] @ ascii ''n Enter '' @ [0x111, 0x1EC3] @ ascii '' g'' @ [0x1EED] @ ascii ''i)''),
      (ascii ''tl'', ascii ''I-type ang inyong mensahe dito... (Pindutin ang Enter para ipadala)''),
      (ascii ''my'', [0x101E, 0x1004, 0x1037, 0x103A, 0x1005, 0x102C, 0x1000, 0x102D, 0x102F, 0x1024, 0x1014, 0x1031, 0x101B, 0x102C, 0x1010, 0x103D, 0x1004, 0x103A, 0x101B, 0x102D, 0x102F, 0x1000, 0x103A, 0x1015, 0x102B] @ ascii ''... ('' @ [0x1015, 0x102D, 0x102F, 0x1037, 0x101B, 0x1014, 0x103A] @ ascii '' Enter '' @ [0x1000, 0x102D, 0x102F, 0x1014, 0x103E, 0x102D, 0x1015, 0x103A, 0x1015, 0x102B] @ ascii '')''),
      (ascii ''km'', [0x1794, 0x1789, 0x17D2, 0x1785, 0x17BC, 0x179B, 0x179F, 0x17B6, 0x179A, 0x179A, 0x1794, 0x179F, 0x17CB, 0x17A2, 0x17D2, 0x1793, 0x1780, 0x1793, 0x17C5, 0x1791, 0x17B8, 0x1793, 0x17C1, 0x17C7] @ ascii ''... ('' @ [0x1785, 0x17BB, 0x1785] @ ascii '' Enter '' @ [0x178A, 0x17BE, 0x1798, 0x17D2, 0x1794, 0x17B8, 0x1795, 0x17D2, 0x1789, 0x17BE] @ ascii '')''),
      (ascii ''lo'', [0xE9E, 0xEB4, 0xEA1, 0xE82, 0xECD, 0xEC9, 0xE84, 0xEA7, 0xEB2, 0xEA1, 0xE82, 0xEAD, 0xE87, 0xE97, 0xEC8, 0xEB2, 0xE99, 0xE97, 0xEB5, 0xEC8, 0xE99, 0xEB5, 0xEC9] @ ascii ''... ('' @ [0xE81, 0xEBB, 0xE94] @ ascii '' Enter '' @ [0xEC0, 0xE9E, 0xEB7, 0xEC8, 0xEAD, 0xEAA, 0xEBB, 0xEC8, 0xE87] @ ascii '')''),
      (ascii ''bn'', [0x98F, 0x996, 0x9BE, 0x9A8, 0x9C7] @ ascii '' '' @ [0x986, 0x9AA, 0x9A8, 0x9BE, 0x9B0] @ ascii '' '' @ [0x9AC, 0x9BE, 0x9B0, 0x9CD, 0x9A4, 0x9BE] @ ascii '' '' @ [0x99F, 0x9BE, 0x987, 0x9AA] @ ascii '' '' @ [0x995, 0x9B0, 0x9C1, 0x9A8] @ ascii ''... ('' @ [0x9AA, 0x9BE, 0x9A0, 0x9BE, 0x9A4, 0x9C7] @ ascii '' Enter '' @ [0x99A, 0x9BE, 0x9AA, 0x9C1, 0x9A8] @ ascii '')'')]"

definition updateChatPlaceholder :: "platform \<Rightarrow> state \<Rightarrow> state" where
  "updateChatPlaceholder pf s =
     s\<lparr>placeholder :=
         toString pf (js_or (obj_get placeholders (currentLanguage s))
                            (obj_get placeholders (ascii ''en'')))\<rparr>"

subsection \<open>Endpoint resolution\<close>

text \<open>
  The result is the endpoint, or the message of the error raised by the read of the
  session storage, which is reached only when none of the earlier cases applies.
\<close>

definition getApiEndpoint :: "page \<Rightarrow> jsstring + jsstring" where
  "getApiEndpoint p =
     (if protocol p = ascii ''file:'' then Inr (ascii ''http://localhost:5000'')
      else if hostname p = ascii ''localhost'' \<or> hostname p = ascii ''127.0.0.1''
        then Inr (ascii ''http://localhost:5000'')
      else if js_includes (hostname p) (ascii ''azurestaticapps.net'')
        then Inr (ascii ''https://bantuan-bjgjgwgrhmcwetah.australiaeast-01.azurewebsites.net'')
      else (case sessionStorage p of
              Unreadable err \<Rightarrow> Inl err
            | Item (Some backendUrl) \<Rightarrow>
                if backendUrl \<noteq> [] then Inr backendUrl
                else Inr (protocol p @ ascii ''//'' @ hostname p)
            | Item None \<Rightarrow> Inr (protocol p @ ascii ''//'' @ hostname p)))"

subsection \<open>The message log\<close>

text \<open>\<open>now\<close> is what \<^verbatim>\<open>new Date().toLocaleTimeString()\<close> returns at the call.\<close>

definition addMessage :: "sender \<Rightarrow> jsstring \<Rightarrow> jsstring \<Rightarrow> state \<Rightarrow> state" where
  "addMessage who txt now s =
     (let el = \<lparr>m_class = who,
                m_sender = (if who = Bot then ascii ''Bantuan Bot'' else ascii ''You''),
                m_time = now, m_text = txt\<rparr>
      in s\<lparr>chatMessages := chatMessages s @ [el], effects := effects s @ [Appended el]\<rparr>)"

subsection \<open>The fallback responder\<close>

text \<open>
  The table \<^verbatim>\<open>responses\<close> is built anew at each call, so every template literal is
  evaluated then, with the message passed in and the language current at the call.
\<close>

definition responses :: "platform \<Rightarrow> jsstring \<Rightarrow> jsstring \<Rightarrow> (jsstring \<times> jsstring list) list" where
  "responses pf lang userMessage =
     [(ascii ''general'',
        [ascii ''I understand you need help. Based on your message '' @ dq @ userMessage @ dq @ ascii '', I'm here to assist you. What specific issue are you experiencing?'',
         ascii ''Thank you for reaching out! I've noted your concern about '' @ dq @ userMessage @ dq @ ascii ''. Let me help you resolve this step by step.'',
         ascii ''I see you mentioned '' @ dq @ userMessage @ dq @ ascii ''. I'm processing this in '' @ toString pf (getLanguageName lang) @ ascii '' and will provide the best assistance possible.'']),
      (ascii ''technical'',
        [ascii ''I can help with technical issues. Regarding '' @ dq @ userMessage @ dq @ ascii '', let me walk you through some troubleshooting steps.'',
         ascii ''Technical support activated! For the issue '' @ dq @ userMessage @ dq @ ascii '', I recommend we start with basic diagnostics.'',
         ascii ''I understand you're experiencing technical difficulties with '' @ dq @ userMessage @ dq @ ascii ''. Let's solve this together.'']),
      (ascii ''account'',
        [ascii ''I can assist with account-related inquiries. About '' @ dq @ userMessage @ dq @ ascii '', I'll need to verify some information first.'',
         ascii ''For account issues like '' @ dq @ userMessage @ dq @ ascii '', I can guide you through the resolution process securely.'',
         ascii ''Account support here! I see your concern about '' @ dq @ userMessage @ dq @ ascii ''. Let me help you with that.'']),
      (ascii ''billing'',
        [ascii ''I can help with billing questions. Regarding '' @ dq @ userMessage @ dq @ ascii '', let me provide you with the relevant information.'',
         ascii ''For billing inquiries about '' @ dq @ userMessage @ dq @ ascii '', I can assist you with explanations and next steps.'',
         ascii ''Billing support activated! I understand your question about '' @ dq @ userMessage @ dq @ ascii ''. Let me clarify this for you.''])]"

text \<open>
  \<open>rnd\<close> is what \<^verbatim>\<open>Math.random()\<close> returns at the call, a number that is at least 0
  and less than 1. An own entry of the table is an array, which is truthy, and is
  indexed by \<^verbatim>\<open>Math.floor(rnd * length)\<close>, the product being the platform's. A value inherited from \<^verbatim>\<open>Object.prototype\<close>
  is truthy too, so \<^verbatim>\<open>||\<close> keeps it; it is a function, or the prototype object, and
  has no indexed property, so the element read from it is \<^verbatim>\<open>undefined\<close>.
\<close>

definition generateBotResponse :: "platform \<Rightarrow> real \<Rightarrow> jsstring \<Rightarrow> state \<Rightarrow> jsstring jsval" where
  "generateBotResponse pf rnd userMessage s =
     (let table = responses pf (currentLanguage s) userMessage;
          categoryResponses =
            (case obj_get table (currentCategory s) of
               Undefined \<Rightarrow> obj_get table (ascii ''general'')
             | v \<Rightarrow> v)
      in case categoryResponses of
           Val templates \<Rightarrow>
             js_index templates \<lfloor>rounded_product pf rnd (length templates)\<rfloor>
         | Builtin k \<Rightarrow> Undefined
         | Undefined \<Rightarrow> Undefined)"

subsection \<open>The remote call\<close>

text \<open>
  A value read from a JSON text. A number is given by whether it is other than zero and
  by the text it converts to; an object is the list of its properties.
\<close>

datatype json =
    JNull
  | JBool bool
  | JNum bool jsstring
  | JStr jsstring
  | JArr "json list"
  | JObj "(jsstring \<times> json) list"

fun truthy :: "json \<Rightarrow> bool" where
  "truthy JNull = False"
| "truthy (JBool b) = b"
| "truthy (JNum nonzero t) = nonzero"
| "truthy (JStr s) = (s \<noteq> [])"
| "truthy (JArr xs) = True"
| "truthy (JObj kvs) = True"

text \<open>
  Conversion of such a value to a string; \<open>Inl\<close> is the message of the error raised. An
  array joins the conversions of its elements with commas, \<^verbatim>\<open>null\<close> elements giving the
  empty string. An object converts by the inherited \<^verbatim>\<open>toString\<close> to
  \<^verbatim>\<open>[object Object]\<close>, unless it has a property \<^verbatim>\<open>toString\<close> of its own: that one is not a
  function, the \<^verbatim>\<open>valueOf\<close> tried next does not give a primitive, and a TypeError is raised.
\<close>

fun to_string :: "platform \<Rightarrow> json \<Rightarrow> jsstring + jsstring"
  and join :: "platform \<Rightarrow> json list \<Rightarrow> jsstring + jsstring" where
  "to_string pf JNull = Inr (ascii ''null'')"
| "to_string pf (JBool b) = Inr (if b then ascii ''true'' else ascii ''false'')"
| "to_string pf (JNum nonzero t) = Inr t"
| "to_string pf (JStr s) = Inr s"
| "to_string pf (JArr xs) = join pf xs"
| "to_string pf (JObj kvs) =
     (if ascii ''toString'' \<in> fst ` set kvs then Inl (convert_text pf)
      else Inr (ascii ''[object Object]''))"
| "join pf [] = Inr []"
| "join pf (x # xs) =
     (case (if x = JNull then Inr [] else to_string pf x) of
        Inl err \<Rightarrow> Inl err
      | Inr a \<Rightarrow>
          if xs = [] then Inr a
          else (case join pf xs of Inl err \<Rightarrow> Inl err | Inr b \<Rightarrow> Inr (a @ ascii '','' @ b)))"

text \<open>
  Reading \<^verbatim>\<open>data.status\<close>, \<^verbatim>\<open>data.response\<close> or \<^verbatim>\<open>data.error\<close> on a value other than
  \<^verbatim>\<open>null\<close>: none of the three is a name that a built-in prototype carries, so the result
  is the property of an object, and \<^verbatim>\<open>undefined\<close> (\<open>None\<close>) in every other case.
\<close>

definition get_field :: "json \<Rightarrow> jsstring \<Rightarrow> json option" where
  "get_field data key = (case data of JObj kvs \<Rightarrow> map_of kvs key | _ \<Rightarrow> None)"

text \<open>
  Assigning a value read from the body to \<^verbatim>\<open>textContent\<close>: \<^verbatim>\<open>undefined\<close> and \<^verbatim>\<open>null\<close>
  give the empty text, any other value is converted to a string, which can raise.
\<close>

definition textContent_json :: "platform \<Rightarrow> json option \<Rightarrow> jsstring + jsstring" where
  "textContent_json pf v =
     (case v of None \<Rightarrow> Inr [] | Some JNull \<Rightarrow> Inr [] | Some w \<Rightarrow> to_string pf w)"

text \<open>
  What the call to \<^verbatim>\<open>fetch\<close> comes back with. The promise is rejected with an error
  that has a message, or it resolves to a response with a status code, a status text and
  a body; \<^verbatim>\<open>response.ok\<close> is true for the codes 200 to 299. Reading the body as JSON is
  rejected with an error that has a message, or gives a value.
\<close>

datatype body = Unparseable jsstring | Parsed json

datatype fetch_result = Rejected jsstring | Response nat jsstring body

definition response_ok :: "nat \<Rightarrow> bool" where
  "response_ok code = (200 \<le> code \<and> code \<le> 299)"

text \<open>The \<^verbatim>\<open>catch\<close> block, entered with the message of the error caught.\<close>

definition sendMessageToBackend_catch :: "jsstring \<Rightarrow> jsstring \<Rightarrow> state \<Rightarrow> state" where
  "sendMessageToBackend_catch message err s =
     (let s1 = showStatusMessage (ascii ''Error: '' @ err) (ascii ''error'') (hideStatusMessage s)
      in s1\<lparr>timers := timers s1 @ [(1000, Fallback message)]\<rparr>)"

text \<open>
  \<^verbatim>\<open>sendMessageToBackend\<close> runs in three pieces. The first runs inside the caller, up to
  the first \<^verbatim>\<open>await\<close>: it resolves the endpoint and issues the request, with the language
  and the category of that moment. When resolving the endpoint raises, the \<^verbatim>\<open>catch\<close>
  block runs at once and no request is issued.
\<close>

definition sendMessageToBackend :: "page \<Rightarrow> jsstring \<Rightarrow> state \<Rightarrow> state" where
  "sendMessageToBackend pg message s =
     (case getApiEndpoint pg of
        Inl err \<Rightarrow> sendMessageToBackend_catch message err s
      | Inr apiEndpoint \<Rightarrow>
          s\<lparr>effects := effects s @
              [Fetch \<lparr>url = apiEndpoint @ ascii ''/api/chat'', req_message = message,
                      req_language = currentLanguage s, req_category = currentCategory s\<rparr>]\<rparr>)"

text \<open>
  The second piece runs when the request has settled and, for a response that is ok,
  its body has been read; nothing of the state is read or written before that. In the
  branch of success the notice is hidden and \<^verbatim>\<open>addMessage\<close> is called with
  \<^verbatim>\<open>data.response\<close>; \<^verbatim>\<open>addMessage\<close> converts it at the assignment to \<^verbatim>\<open>textContent\<close>,
  before it attaches anything to the page, so a conversion that raises leaves the
  messages as they were and the \<^verbatim>\<open>catch\<close> block runs. The argument of \<^verbatim>\<open>new Error\<close> is
  \<^verbatim>\<open>data.error\<close> when that is truthy and the fixed text otherwise; the message is its
  conversion to a string, and when that conversion raises it is the TypeError that is
  caught.
\<close>

definition sendMessageToBackend_settled ::
  "platform \<Rightarrow> jsstring \<Rightarrow> jsstring \<Rightarrow> fetch_result \<Rightarrow> state \<Rightarrow> state" where
  "sendMessageToBackend_settled pf message now res s =
     (case res of
        Rejected err \<Rightarrow> sendMessageToBackend_catch message err s
      | Response code statusText b \<Rightarrow>
          if \<not> response_ok code
          then sendMessageToBackend_catch message
                 (ascii ''API error: '' @ decimal code @ ascii '' '' @ statusText) s
          else (case b of
                  Unparseable err \<Rightarrow> sendMessageToBackend_catch message err s
                | Parsed data \<Rightarrow>
                    if data = JNull
                    then sendMessageToBackend_catch message (null_read_text pf) s
                    else if get_field data (ascii ''status'') = Some (JStr (ascii ''success''))
                    then (case textContent_json pf (get_field data (ascii ''response'')) of
                            Inr txt \<Rightarrow> addMessage Bot txt now (hideStatusMessage s)
                          | Inl err \<Rightarrow>
                              sendMessageToBackend_catch message err (hideStatusMessage s))
                    else (case (case get_field data (ascii ''error'') of
                                  None \<Rightarrow> Inr (ascii ''Unknown error from API'')
                                | Some e \<Rightarrow>
                                    if truthy e then to_string pf e
                                    else Inr (ascii ''Unknown error from API'')) of
                            Inr msg \<Rightarrow> sendMessageToBackend_catch message msg s
                          | Inl err \<Rightarrow> sendMessageToBackend_catch message err s)))"

text \<open>The third piece is the callback of the timer set in the \<^verbatim>\<open>catch\<close> block.\<close>

definition fallback_timeout :: "platform \<Rightarrow> real \<Rightarrow> jsstring \<Rightarrow> jsstring \<Rightarrow> state \<Rightarrow> state" where
  "fallback_timeout pf rnd message now s =
     addMessage Bot (textContent pf (generateBotResponse pf rnd message s)) now s"

subsection \<open>Sending\<close>

definition handleSendMessage :: "page \<Rightarrow> jsstring \<Rightarrow> state \<Rightarrow> state" where
  "handleSendMessage pg now s =
     (let message = trim (messageInput s)
      in if message = [] then s
         else sendMessageToBackend pg message
                (showStatusMessage (ascii ''Processing your request...'') (ascii ''info'')
                   ((addMessage User message now s)\<lparr>messageInput := []\<rparr>)))"

subsection \<open>Timers\<close>

text \<open>
  A pending timer runs its callback once and is gone: \<open>timeout\<close> fires the timer at
  position \<open>i\<close>. The callback of \<^verbatim>\<open>hideStatusMessage\<close> removes the element it was set
  for, which is a no-op when another notice has replaced it since.
\<close>

definition run_timer :: "platform \<Rightarrow> real \<Rightarrow> jsstring \<Rightarrow> timer \<Rightarrow> state \<Rightarrow> state" where
  "run_timer pf rnd now t s =
     (case t of
        HideStatus \<Rightarrow> hideStatusMessage s
      | RemoveStatus i \<Rightarrow>
          (case statusMessage s of
             None \<Rightarrow> s
           | Some el \<Rightarrow> if st_id el = i then s\<lparr>statusMessage := None\<rparr> else s)
      | Fallback message \<Rightarrow> fallback_timeout pf rnd message now s)"

definition timeout :: "platform \<Rightarrow> real \<Rightarrow> jsstring \<Rightarrow> nat \<Rightarrow> state \<Rightarrow> state" where
  "timeout pf rnd now i s =
     (if i < length (timers s)
      then run_timer pf rnd now (snd (timers s ! i))
             (s\<lparr>timers := take i (timers s) @ drop (Suc i) (timers s)\<rparr>)
      else s)"

subsection \<open>Clearing and exporting the log\<close>

text \<open>
  The markup that \<^verbatim>\<open>handleClearChat\<close> assigns holds one message; the text of its
  \<^verbatim>\<open>.message-text\<close> element keeps the line breaks and the indentation of the literal.
\<close>

definition greeting :: message where
  "greeting =
     \<lparr>m_class = Bot, m_sender = ascii ''Bantuan Bot'', m_time = ascii ''Just now'',
      m_text = nl @ replicate 24 0x20
        @ ascii ''Hello! I'm Bantuan, your multi-lingual support assistant. I can help you in multiple ASEAN languages. How can I assist you today?''
        @ nl @ replicate 20 0x20\<rparr>"

text \<open>\<open>confirmed\<close> is the answer of the \<^verbatim>\<open>confirm\<close> dialog.\<close>

definition handleClearChat :: "bool \<Rightarrow> state \<Rightarrow> state" where
  "handleClearChat confirmed s =
     (if confirmed
      then (let s1 = showStatusMessage (ascii ''Chat cleared successfully'') (ascii ''success'')
                       (s\<lparr>chatMessages := [greeting], effects := effects s @ [Cleared]\<rparr>)
            in s1\<lparr>timers := timers s1 @ [(2000, HideStatus)]\<rparr>)
      else s)"




subsection \<open>Language and category\<close>

text \<open>\<open>selected\<close> is the value of the language selector.\<close>

definition handleLanguageChange :: "platform \<Rightarrow> jsstring \<Rightarrow> jsstring \<Rightarrow> state \<Rightarrow> state" where
  "handleLanguageChange pf selected now s =
     (let s1 = updateChatPlaceholder pf (s\<lparr>currentLanguage := selected\<rparr>);
          s2 = (case recognition s1 of
                  None \<Rightarrow> s1
                | Some l \<Rightarrow> s1\<lparr>recognition := Some (toString pf (getLanguageCode selected))\<rparr>)
      in addMessage Bot
           (ascii ''Language changed to '' @ toString pf (getLanguageName selected)
              @ ascii ''. How can I help you?'') now s2)"

text \<open>\<open>label\<close> is the text of the button clicked.\<close>

definition handleCategoryChange :: "jsstring \<Rightarrow> jsstring \<Rightarrow> jsstring \<Rightarrow> state \<Rightarrow> state" where
  "handleCategoryChange category label now s =
     addMessage Bot
       (ascii ''Switched to '' @ trim label @ ascii '' support. What can I help you with?'')
       now (s\<lparr>currentCategory := category\<rparr>)"

subsection \<open>The callbacks of the speech recognizer\<close>

definition recognition_onstart :: "state \<Rightarrow> state" where
  "recognition_onstart s =
     showStatusMessage (ascii ''Listening... Speak now'') (ascii ''info'') (s\<lparr>isListening := True\<rparr>)"

definition recognition_onresult :: "jsstring \<Rightarrow> state \<Rightarrow> state" where
  "recognition_onresult transcript s = s\<lparr>messageInput := transcript\<rparr>"

definition recognition_onend :: "state \<Rightarrow> state" where
  "recognition_onend s = hideStatusMessage (s\<lparr>isListening := False\<rparr>)"

definition recognition_onerror :: "state \<Rightarrow> state" where
  "recognition_onerror s =
     (let s1 = showStatusMessage (ascii ''Voice recognition error. Please try again.'')
                 (ascii ''error'') s
      in s1\<lparr>timers := timers s1 @ [(3000, HideStatus)]\<rparr>)"

subsection \<open>Outcomes of the remote call, in the words of the specification\<close>

text \<open>
  Success as the specification words it: the status code is in the success range and
  the field \<^verbatim>\<open>status\<close> of the body is the string \<^verbatim>\<open>success\<close>. \<open>response_field\<close> is the
  field \<^verbatim>\<open>response\<close> of the body, and \<open>rendered\<close> the text it gives on the page, or the
  message of the error its conversion raises.
\<close>

definition is_success :: "fetch_result \<Rightarrow> bool" where
  "is_success res =
     (case res of
        Response code statusText (Parsed (JObj kvs)) \<Rightarrow>
          200 \<le> code \<and> code \<le> 299 \<and> map_of kvs (ascii ''status'') = Some (JStr (ascii ''success''))
      | _ \<Rightarrow> False)"

definition response_field :: "fetch_result \<Rightarrow> json option" where
  "response_field res =
     (case res of
        Response code statusText (Parsed (JObj kvs)) \<Rightarrow> map_of kvs (ascii ''response'')
      | _ \<Rightarrow> None)"

definition rendered :: "platform \<Rightarrow> fetch_result \<Rightarrow> jsstring + jsstring" where
  "rendered pf res =
     (case response_field res of
        None \<Rightarrow> Inr []
      | Some JNull \<Rightarrow> Inr []
      | Some (JStr r) \<Rightarrow> Inr r
      | Some v \<Rightarrow> to_string pf v)"

text \<open>
  The message that a reply which is not a success carries: that of the rejection; the
  status line of a response outside the success range; the message of the parse error;
  the message of the error raised by a body that is \<^verbatim>\<open>null\<close>; the field \<^verbatim>\<open>error\<close> of the
  body when it is a string that is not empty; the fixed text when there is no such field
  or it is falsy; and for a field \<^verbatim>\<open>error\<close> of another kind its conversion to a string,
  or the message of the error that the conversion raises.
\<close>

definition failure_message :: "platform \<Rightarrow> fetch_result \<Rightarrow> jsstring" where
  "failure_message pf res =
     (case res of
        Rejected err \<Rightarrow> err
      | Response code statusText b \<Rightarrow>
          if \<not> (200 \<le> code \<and> code \<le> 299)
          then ascii ''API error: '' @ decimal code @ ascii '' '' @ statusText
          else (case b of
                  Unparseable err \<Rightarrow> err
                | Parsed JNull \<Rightarrow> null_read_text pf
                | Parsed (JObj kvs) \<Rightarrow>
                    (case map_of kvs (ascii ''error'') of
                       None \<Rightarrow> ascii ''Unknown error from API''
                     | Some JNull \<Rightarrow> ascii ''Unknown error from API''
                     | Some (JBool flag) \<Rightarrow>
                         if flag then ascii ''true'' else ascii ''Unknown error from API''
                     | Some (JNum nonzero t) \<Rightarrow>
                         if nonzero then t else ascii ''Unknown error from API''
                     | Some (JStr e) \<Rightarrow> if e = [] then ascii ''Unknown error from API'' else e
                     | Some v \<Rightarrow> (case to_string pf v of Inr m \<Rightarrow> m | Inl err \<Rightarrow> err))
                | Parsed v \<Rightarrow> ascii ''Unknown error from API''))"

text \<open>
  The templates configured for a category, in the words of the specification: those of
  its own entry, and those of \<^verbatim>\<open>general\<close> for a category without an entry.
\<close>

definition category_templates :: "platform \<Rightarrow> jsstring \<Rightarrow> jsstring \<Rightarrow> jsstring \<Rightarrow> jsstring list" where
  "category_templates pf lang userMessage category =
     (case map_of (responses pf lang userMessage) category of
        Some templates \<Rightarrow> templates
      | None \<Rightarrow>
          (case map_of (responses pf lang userMessage) (ascii ''general'') of
             Some templates \<Rightarrow> templates
           | None \<Rightarrow> []))"

subsection \<open>Runs of a send that fails\<close>

text \<open>
  The times at which the steps of a run happen, as the clock of the page prints them.
\<close>

record clock =
  at_send :: jsstring
  at_settle :: jsstring
  at_change :: jsstring
  at_fire :: jsstring

text \<open>
  A send fails when resolving the endpoint raises, or when the reply is not a success,
  or when it is one whose field \<^verbatim>\<open>response\<close> cannot be put on the page. The request
  settles only if one was issued.
\<close>

definition send_fails :: "platform \<Rightarrow> page \<Rightarrow> fetch_result \<Rightarrow> bool" where
  "send_fails pf pg res =
     (case getApiEndpoint pg of
        Inl err \<Rightarrow> True
      | Inr apiEndpoint \<Rightarrow>
          (if is_success res then (case rendered pf res of Inl err \<Rightarrow> True | Inr txt \<Rightarrow> False)
           else True))"

text \<open>The message of the error notice when a request that was issued fails.\<close>

definition remote_error :: "platform \<Rightarrow> fetch_result \<Rightarrow> jsstring" where
  "remote_error pf res =
     (if is_success res then (case rendered pf res of Inl err \<Rightarrow> err | Inr txt \<Rightarrow> [])
      else failure_message pf res)"

definition settle :: "platform \<Rightarrow> page \<Rightarrow> jsstring \<Rightarrow> jsstring \<Rightarrow> fetch_result \<Rightarrow> state \<Rightarrow> state" where
  "settle pf pg message now res s =
     (case getApiEndpoint pg of
        Inl err \<Rightarrow> s
      | Inr apiEndpoint \<Rightarrow> sendMessageToBackend_settled pf message now res s)"

text \<open>
  A send whose remote call fails: the click, the settling of the request, and the
  firing of the timer set last, which is the fallback timer.
\<close>

definition failed_send ::
  "platform \<Rightarrow> page \<Rightarrow> fetch_result \<Rightarrow> real \<Rightarrow> clock \<Rightarrow> state \<Rightarrow> state" where
  "failed_send pf pg res rnd ck s0 =
     (let s1 = handleSendMessage pg (at_send ck) s0;
          s2 = settle pf pg (trim (messageInput s0)) (at_settle ck) res s1
      in timeout pf rnd (at_fire ck) (length (timers s2) - 1) s2)"

text \<open>
  The same with a click on a category button in between: after the call has failed and
  before the timer fires, or while the call is under way.
\<close>

definition change_during_delay ::
  "platform \<Rightarrow> page \<Rightarrow> fetch_result \<Rightarrow> real \<Rightarrow> jsstring \<Rightarrow> jsstring \<Rightarrow> clock \<Rightarrow> state \<Rightarrow> state" where
  "change_during_delay pf pg res rnd category label ck s0 =
     (let s1 = handleSendMessage pg (at_send ck) s0;
          s2 = settle pf pg (trim (messageInput s0)) (at_settle ck) res s1;
          s3 = handleCategoryChange category label (at_change ck) s2
      in timeout pf rnd (at_fire ck) (length (timers s3) - 1) s3)"

definition change_during_call ::
  "platform \<Rightarrow> page \<Rightarrow> fetch_result \<Rightarrow> real \<Rightarrow> jsstring \<Rightarrow> jsstring \<Rightarrow> clock \<Rightarrow> state \<Rightarrow> state" where
  "change_during_call pf pg res rnd category label ck s0 =
     (let s1 = handleSendMessage pg (at_send ck) s0;
          s2 = handleCategoryChange category label (at_change ck) s1;
          s3 = settle pf pg (trim (messageInput s0)) (at_settle ck) res s2
      in timeout pf rnd (at_fire ck) (length (timers s3) - 1) s3)"

text \<open>The messages that \<^verbatim>\<open>addMessage\<close> builds for the two senders.\<close>

definition user_message :: "jsstring \<Rightarrow> jsstring \<Rightarrow> message" where
  "user_message now txt = \<lparr>m_class = User, m_sender = ascii ''You'', m_time = now, m_text = txt\<rparr>"

definition bot_message :: "jsstring \<Rightarrow> jsstring \<Rightarrow> message" where
  "bot_message now txt = \<lparr>m_class = Bot, m_sender = ascii ''Bantuan Bot'', m_time = now, m_text = txt\<rparr>"

subsection \<open>Example inputs\<close>

text \<open>
  The page after start-up, with the globals as the script initialises them, a recognizer
  set up for English, and the greeting as the only message on display; pages on the
  development host, on a port of its own, on the default port, and one that may not read
  the session storage; a platform with the texts one browser engine gives, whose product
  is the exact one (the exact product of 1/2 and 3 is a double); replies that succeed,
  that fail, and one marked as a success whose field \<^verbatim>\<open>response\<close> cannot be converted;
  the times of a run; and two states with a question typed in.
\<close>

definition loaded :: state where
  "loaded =
     \<lparr>currentLanguage = ascii ''en'', currentCategory = ascii ''general'',
      isListening = False, recognition = Some (ascii ''en-US''),
      chatMessages = [greeting], messageInput = [],
      placeholder = ascii ''Type your message here... (Press Enter to send)'',
      statusMessage = None, created = 0, timers = [], effects = []\<rparr>"

definition local_page :: page where
  "local_page =
     \<lparr>protocol = ascii ''http:'', hostname = ascii ''localhost'', port = ascii ''8080'',
      sessionStorage = Item None\<rparr>"

definition hosted_page :: page where
  "hosted_page =
     \<lparr>protocol = ascii ''https:'', hostname = ascii ''support.example.com'',
      port = ascii ''8443'', sessionStorage = Item None\<rparr>"

definition default_page :: page where
  "default_page =
     \<lparr>protocol = ascii ''https:'', hostname = ascii ''support.example.com'',
      port = [], sessionStorage = Item None\<rparr>"

definition override_page :: page where
  "override_page =
     \<lparr>protocol = ascii ''https:'', hostname = ascii ''support.example.com'',
      port = [], sessionStorage = Item (Some (ascii ''https://api.example.com''))\<rparr>"

definition sandboxed_page :: page where
  "sandboxed_page =
     \<lparr>protocol = ascii ''https:'', hostname = ascii ''support.example.com'',
      port = [], sessionStorage = Unreadable (ascii ''The operation is insecure.'')\<rparr>"

definition some_platform :: platform where
  "some_platform =
     \<lparr>builtin_text =
        (\<lambda>k. if k = ascii ''__proto__'' then ascii ''[object Object]''
             else ascii ''function ''
                    @ (if k = ascii ''constructor'' then ascii ''Object'' else k)
                    @ ascii ''() { [native code] }''),
      null_read_text = ascii ''Cannot read properties of null (reading 'status')'',
      convert_text = ascii ''Cannot convert object to primitive value'',
      rounded_product = (\<lambda>r n. r * real n)\<rparr>"


definition bad_reply :: fetch_result where
  "bad_reply = Response 500 (ascii ''Internal Server Error'') (Unparseable (ascii ''Unexpected token''))"




definition morning :: clock where
  "morning = \<lparr>at_send = ascii ''10:00:00'', at_settle = ascii ''10:00:01'',
              at_change = ascii ''10:00:02'', at_fire = ascii ''10:00:03''\<rparr>"

definition account_question :: state where
  "account_question =
     loaded\<lparr>currentCategory := ascii ''account'', messageInput := ascii ''reset my password''\<rparr>"

definition constructor_question :: state where
  "constructor_question =
     loaded\<lparr>currentCategory := ascii ''constructor'', messageInput := ascii '' hi ''\<rparr>"

section \<open>Properties\<close>

subsection \<open>Sending\<close>

lemma trim_empty_iff: "trim raw = [] \<longleftrightarrow> (\<forall>c\<in>set raw. isWhiteSpace c)"
proof
  assume "trim raw = []"
  then have a: "\<forall>c\<in>set (dropWhile isWhiteSpace raw). isWhiteSpace c"
    by (simp add: trim_def)
  have "dropWhile isWhiteSpace raw = []"
  proof (rule ccontr)
    assume n: "dropWhile isWhiteSpace raw \<noteq> []"
    then have "\<not> isWhiteSpace (hd (dropWhile isWhiteSpace raw))" by (rule hd_dropWhile)
    moreover have "hd (dropWhile isWhiteSpace raw) \<in> set (dropWhile isWhiteSpace raw)"
      using n by simp
    ultimately show False using a by blast
  qed
  then show "\<forall>c\<in>set raw. isWhiteSpace c" by simp
next
  assume "\<forall>c\<in>set raw. isWhiteSpace c"
  then have d: "dropWhile isWhiteSpace raw = []" by simp
  show "trim raw = []" by (simp only: trim_def d dropWhile.simps rev.simps append_Nil)
qed


text \<open>
  C1. \<^verbatim>\<open>handleSendMessage\<close> reads the input field. When the trimmed text is not empty
  it appends exactly one message, the user's, with the trimmed text, and what it does
  is, in this order: append the message, show the processing notice, and then issue the
  request, or, when resolving the endpoint raises, show the error notice without any
  request. When the trimmed text is empty, which is the case exactly when the field holds
  white space only (or nothing), the state is unchanged: no message, no request.
\<close>

theorem send_appends_before_fetch:
  "(trim (messageInput s) \<noteq> [] \<longrightarrow>
      chatMessages (handleSendMessage pg now s) =
        chatMessages s @ [\<lparr>m_class = User, m_sender = ascii ''You'', m_time = now,
                           m_text = trim (messageInput s)\<rparr>]
      \<and> effects (handleSendMessage pg now s) =
        effects s @
        [Appended \<lparr>m_class = User, m_sender = ascii ''You'', m_time = now,
                    m_text = trim (messageInput s)\<rparr>,
         Shown (ascii ''Processing your request...'') (ascii ''info''),
         (case getApiEndpoint pg of
            Inr apiEndpoint \<Rightarrow>
              Fetch \<lparr>url = apiEndpoint @ ascii ''/api/chat'',
                     req_message = trim (messageInput s),
                     req_language = currentLanguage s, req_category = currentCategory s\<rparr>
          | Inl err \<Rightarrow> Shown (ascii ''Error: '' @ err) (ascii ''error''))])
   \<and> (trim (messageInput s) = [] \<longrightarrow> handleSendMessage pg now s = s)
   \<and> (trim (messageInput s) = [] \<longleftrightarrow> (\<forall>c\<in>set (messageInput s). isWhiteSpace c))"
  by (simp add: handleSendMessage_def sendMessageToBackend_def sendMessageToBackend_catch_def
        showStatusMessage_def hideStatusMessage_def addMessage_def Let_def trim_empty_iff
      split: sum.splits)

theorem send_appends_before_fetch_witness:
  "trim (ascii ''  hi '') \<noteq> []
   \<and> chatMessages (handleSendMessage local_page (ascii ''10:00:00'')
        (loaded\<lparr>messageInput := ascii ''  hi ''\<rparr>)) =
       [greeting, \<lparr>m_class = User, m_sender = ascii ''You'', m_time = ascii ''10:00:00'',
                   m_text = ascii ''hi''\<rparr>]
   \<and> effects (handleSendMessage local_page (ascii ''10:00:00'')
        (loaded\<lparr>messageInput := ascii ''  hi ''\<rparr>)) =
       [Appended \<lparr>m_class = User, m_sender = ascii ''You'', m_time = ascii ''10:00:00'',
                   m_text = ascii ''hi''\<rparr>,
        Shown (ascii ''Processing your request...'') (ascii ''info''),
        Fetch \<lparr>url = ascii ''http://localhost:5000/api/chat'', req_message = ascii ''hi'',
               req_language = ascii ''en'', req_category = ascii ''general''\<rparr>]
   \<and> effects (handleSendMessage sandboxed_page (ascii ''10:00:00'')
        (loaded\<lparr>messageInput := ascii ''  hi ''\<rparr>)) =
       [Appended \<lparr>m_class = User, m_sender = ascii ''You'', m_time = ascii ''10:00:00'',
                   m_text = ascii ''hi''\<rparr>,
        Shown (ascii ''Processing your request...'') (ascii ''info''),
        Shown (ascii ''Error: The operation is insecure.'') (ascii ''error'')]
   \<and> trim (ascii ''  '') = []
   \<and> handleSendMessage local_page (ascii ''10:00:00'') (loaded\<lparr>messageInput := ascii ''  ''\<rparr>)
       = loaded\<lparr>messageInput := ascii ''  ''\<rparr>"
proof -
  have l: "getApiEndpoint local_page = Inr (ascii ''http://localhost:5000'')"
    by (simp add: getApiEndpoint_def local_page_def)
  have b: "getApiEndpoint sandboxed_page = Inl (ascii ''The operation is insecure.'')"
    by (simp add: getApiEndpoint_def sandboxed_page_def ascii_def)
  have t: "trim (ascii ''  hi '') = ascii ''hi''" "trim (ascii ''  '') = []"
    by (simp_all add: trim_def isWhiteSpace_def ascii_def)
  have n: "ascii ''hi'' \<noteq> []" by (simp add: ascii_def)
  show ?thesis
    using send_appends_before_fetch [of "loaded\<lparr>messageInput := ascii ''  hi ''\<rparr>" local_page "ascii ''10:00:00''"]
      send_appends_before_fetch [of "loaded\<lparr>messageInput := ascii ''  hi ''\<rparr>" sandboxed_page "ascii ''10:00:00''"]
      send_appends_before_fetch [of "loaded\<lparr>messageInput := ascii ''  ''\<rparr>" local_page "ascii ''10:00:00''"]
    by (simp add: l b t n) (simp add: loaded_def ascii_def)
qed

subsection \<open>Clearing and exporting\<close>



text \<open>
  C7. Declining the confirmation leaves the whole state, and so the log, as it was;
  confirming replaces the log by the greeting of the bot alone.
\<close>

theorem clear_chat:
  "handleClearChat False s = s
   \<and> chatMessages (handleClearChat True s) = [greeting]
   \<and> m_class greeting = Bot"
  by (simp add: handleClearChat_def showStatusMessage_def greeting_def Let_def)

subsection \<open>The language registry\<close>

lemma js_or_Val: "v \<noteq> [] \<Longrightarrow> js_or (Val v) d = Val v"
  by (simp add: js_or_def)

lemma languages_nonempty: "map_of languages code = Some n \<Longrightarrow> n \<noteq> []"
  by (auto simp: languages_def ascii_def split: if_splits)

lemma speechCodes_nonempty: "map_of speechCodes code = Some n \<Longrightarrow> n \<noteq> []"
  by (auto simp: speechCodes_def ascii_def split: if_splits)

lemma placeholders_nonempty: "map_of placeholders code = Some n \<Longrightarrow> n \<noteq> []"
  by (auto simp: placeholders_def ascii_def split: if_splits)

lemma same_codes: "map_of languages code = None \<longleftrightarrow> map_of speechCodes code = None"
  "map_of languages code = None \<longleftrightarrow> map_of placeholders code = None"
  by (simp_all add: languages_def speechCodes_def placeholders_def)

text \<open>
  C5, as stated, fails: a code that is in no table gets the display name \<^verbatim>\<open>Unknown\<close>,
  not the display name of the English entry.
\<close>

theorem unknown_language_counterexample:
  "getLanguageName (ascii ''xx'') = Val (ascii ''Unknown'')
   \<and> getLanguageName (ascii ''xx'') \<noteq> getLanguageName (ascii ''en'')"
  by (simp add: getLanguageName_def obj_get_def js_or_def languages_def object_prototype_keys_def ascii_def)

text \<open>
  C5, amended. A code of the registry resolves to its own display name, speech locale
  and placeholder. A code that is in no table, and is not one of the names inherited from
  \<^verbatim>\<open>Object.prototype\<close>, resolves to the display name \<^verbatim>\<open>Unknown\<close>, to the English speech
  locale and to the English placeholder.
\<close>

theorem language_resolution:
  "(\<forall>name. map_of languages code = Some name \<longrightarrow> getLanguageName code = Val name)
   \<and> (\<forall>tag. map_of speechCodes code = Some tag \<longrightarrow> getLanguageCode code = Val tag)
   \<and> (\<forall>ph. map_of placeholders code = Some ph \<longrightarrow>
         placeholder (updateChatPlaceholder pf (s\<lparr>currentLanguage := code\<rparr>)) = ph)
   \<and> (map_of languages code = None \<and> code \<notin> set object_prototype_keys \<longrightarrow>
         getLanguageName code = Val (ascii ''Unknown'')
         \<and> getLanguageCode code = Val (ascii ''en-US'')
         \<and> placeholder (updateChatPlaceholder pf (s\<lparr>currentLanguage := code\<rparr>))
             = ascii ''Type your message here... (Press Enter to send)'')"
proof (intro conjI allI impI)
  fix name assume "map_of languages code = Some name"
  then show "getLanguageName code = Val name"
    by (simp add: getLanguageName_def obj_get_def js_or_Val languages_nonempty)
next
  fix tag assume "map_of speechCodes code = Some tag"
  then show "getLanguageCode code = Val tag"
    by (simp add: getLanguageCode_def obj_get_def js_or_Val speechCodes_nonempty)
next
  fix ph assume "map_of placeholders code = Some ph"
  then show "placeholder (updateChatPlaceholder pf (s\<lparr>currentLanguage := code\<rparr>)) = ph"
    by (simp add: updateChatPlaceholder_def obj_get_def js_or_Val placeholders_nonempty toString_def)
next
  assume a: "map_of languages code = None \<and> code \<notin> set object_prototype_keys"
  then show "getLanguageName code = Val (ascii ''Unknown'')"
    by (simp add: getLanguageName_def obj_get_def js_or_def)
  from a have "map_of speechCodes code = None" using same_codes(1) by blast
  with a show "getLanguageCode code = Val (ascii ''en-US'')"
    by (simp add: getLanguageCode_def obj_get_def js_or_def)
  from a have n: "map_of placeholders code = None" using same_codes(2) by blast
  have e: "obj_get placeholders (ascii ''en'') = Val (ascii ''Type your message here... (Press Enter to send)'')"
    by (simp add: obj_get_def placeholders_def)
  from a n show "placeholder (updateChatPlaceholder pf (s\<lparr>currentLanguage := code\<rparr>))
             = ascii ''Type your message here... (Press Enter to send)''"
    by (simp add: updateChatPlaceholder_def e js_or_def toString_def) (simp add: obj_get_def)
qed

theorem language_resolution_witness:
  "map_of languages (ascii ''id'') = Some (ascii ''Bahasa Indonesia'')
   \<and> getLanguageName (ascii ''id'') = Val (ascii ''Bahasa Indonesia'')
   \<and> map_of speechCodes (ascii ''id'') = Some (ascii ''id-ID'')
   \<and> getLanguageCode (ascii ''id'') = Val (ascii ''id-ID'')
   \<and> map_of placeholders (ascii ''ms'') = Some (ascii ''Taip mesej anda di sini... (Tekan Enter untuk hantar)'')
   \<and> placeholder (updateChatPlaceholder some_platform (loaded\<lparr>currentLanguage := ascii ''ms''\<rparr>))
       = ascii ''Taip mesej anda di sini... (Tekan Enter untuk hantar)''
   \<and> map_of languages (ascii ''xx'') = None
   \<and> ascii ''xx'' \<notin> set object_prototype_keys
   \<and> getLanguageName (ascii ''xx'') = Val (ascii ''Unknown'')
   \<and> getLanguageCode (ascii ''xx'') = Val (ascii ''en-US'')
   \<and> placeholder (updateChatPlaceholder some_platform (loaded\<lparr>currentLanguage := ascii ''xx''\<rparr>))
       = ascii ''Type your message here... (Press Enter to send)''"
  using language_resolution [of "ascii ''id''" some_platform loaded]
    language_resolution [of "ascii ''ms''" some_platform loaded]
    language_resolution [of "ascii ''xx''" some_platform loaded]
  by (simp add: languages_def speechCodes_def placeholders_def object_prototype_keys_def ascii_def)

subsection \<open>Endpoint resolution\<close>

lemma js_includes_iff: "js_includes s t \<longleftrightarrow> (\<exists>pre suf. s = pre @ t @ suf)"
proof (induction s)
  case Nil
  then show ?case by auto
next
  case (Cons c s)
  have p: "take (length t) (c # s) = t \<longleftrightarrow> (\<exists>suf. c # s = t @ suf)"
    by (metis append_eq_conv_conj append_take_drop_id)
  show ?case
  proof
    assume "js_includes (c # s) t"
    then consider "take (length t) (c # s) = t" | "js_includes s t" by auto
    then show "\<exists>pre suf. c # s = pre @ t @ suf"
    proof cases
      case 1
      then obtain suf where "c # s = t @ suf" using p by blast
      then have "c # s = [] @ t @ suf" by simp
      then show ?thesis by blast
    next
      case 2
      then obtain pre suf where "s = pre @ t @ suf" using Cons.IH by blast
      then have "c # s = (c # pre) @ t @ suf" by simp
      then show ?thesis by blast
    qed
  next
    assume "\<exists>pre suf. c # s = pre @ t @ suf"
    then obtain pre suf where e: "c # s = pre @ t @ suf" by blast
    show "js_includes (c # s) t"
    proof (cases pre)
      case Nil
      with e have "c # s = t @ suf" by simp
      then have "take (length t) (c # s) = t" using p by blast
      then show ?thesis by (simp only: js_includes.simps simp_thms)
    next
      case (Cons a pre')
      with e have "s = pre' @ t @ suf" by simp
      then have "js_includes s t" using Cons.IH by blast
      then show ?thesis by simp
    qed
  qed
qed


text \<open>
  C4, as stated, fails in its last case: for a page served on a port that is not the
  default one, the result leaves the port out, so it is not the origin of the page.
\<close>

theorem endpoint_port_counterexample:
  "getApiEndpoint hosted_page = Inr (ascii ''https://support.example.com'')
   \<and> origin hosted_page = ascii ''https://support.example.com:8443''
   \<and> getApiEndpoint hosted_page \<noteq> Inr (origin hosted_page)"
  by (simp add: getApiEndpoint_def hosted_page_def origin_def host_def ascii_def)

text \<open>
  C4, amended. The endpoint is a function of the deployment context alone: the local
  development address for the \<^verbatim>\<open>file:\<close> scheme and for the host names \<^verbatim>\<open>localhost\<close> and
  \<^verbatim>\<open>127.0.0.1\<close>; else the fixed back-end address when the host name contains
  \<^verbatim>\<open>azurestaticapps.net\<close>; else, the session storage being read only now, no endpoint
  but the error of that read when it raises; else the stored override when there is one
  and it is not the empty string; else the scheme and the host name of the page joined
  by \<^verbatim>\<open>//\<close>, which is the origin of a page served over http or https on the default
  port.
\<close>

theorem endpoint_resolution:
  "getApiEndpoint p =
     (if protocol p = ascii ''file:'' \<or> hostname p = ascii ''localhost''
         \<or> hostname p = ascii ''127.0.0.1''
      then Inr (ascii ''http://localhost:5000'')
      else if \<exists>pre suf. hostname p = pre @ ascii ''azurestaticapps.net'' @ suf
      then Inr (ascii ''https://bantuan-bjgjgwgrhmcwetah.australiaeast-01.azurewebsites.net'')
      else (case sessionStorage p of
              Unreadable err \<Rightarrow> Inl err
            | Item None \<Rightarrow> Inr (protocol p @ ascii ''//'' @ hostname p)
            | Item (Some u) \<Rightarrow>
                if u = [] then Inr (protocol p @ ascii ''//'' @ hostname p) else Inr u))
   \<and> ((protocol p = ascii ''http:'' \<or> protocol p = ascii ''https:'') \<and> port p = [] \<longrightarrow>
        protocol p @ ascii ''//'' @ hostname p = origin p)"
  by (auto simp: getApiEndpoint_def js_includes_iff origin_def host_def
      split: option.splits storage.splits)

theorem endpoint_resolution_witness:
  "(protocol default_page = ascii ''http:'' \<or> protocol default_page = ascii ''https:'')
   \<and> port default_page = []
   \<and> getApiEndpoint default_page = Inr (ascii ''https://support.example.com'')
   \<and> getApiEndpoint default_page = Inr (origin default_page)
   \<and> getApiEndpoint override_page = Inr (ascii ''https://api.example.com'')
   \<and> getApiEndpoint sandboxed_page = Inl (ascii ''The operation is insecure.'')
   \<and> getApiEndpoint local_page = Inr (ascii ''http://localhost:5000'')"
  using endpoint_resolution [of default_page] endpoint_resolution [of override_page]
    endpoint_resolution [of sandboxed_page] endpoint_resolution [of local_page]
  by (simp add: default_page_def override_page_def sandboxed_page_def local_page_def
        getApiEndpoint_def origin_def host_def ascii_def)

subsection \<open>The speech recognizer\<close>

text \<open>
  C8, as stated, fails: the error callback leaves \<open>isListening\<close> as it is, so a
  controller that is listening is still listening when the callback returns.
\<close>

theorem recognition_error_counterexample:
  "isListening (recognition_onstart loaded)
   \<and> isListening (recognition_onerror (recognition_onstart loaded))"
  by (simp add: recognition_onerror_def recognition_onstart_def showStatusMessage_def Let_def)

text \<open>
  C8, amended. The error callback shows the error notice and sets the timer that hides
  it, after which the notice is gone; it does not change \<open>isListening\<close>. The controller
  is idle once the callback for the end of the session, which the platform runs after an
  error, has run.
\<close>

theorem recognition_error_then_end:
  "isListening (recognition_onerror s) = isListening s
   \<and> effects (recognition_onerror s) =
       effects s @ [Shown (ascii ''Voice recognition error. Please try again.'') (ascii ''error'')]
   \<and> timers (recognition_onerror s) = timers s @ [(3000, HideStatus)]
   \<and> statusMessage (run_timer pf rnd now (RemoveStatus (created s))
        (run_timer pf rnd now HideStatus (recognition_onerror s))) = None
   \<and> \<not> isListening (recognition_onend (recognition_onerror s))"
  by (simp add: recognition_onerror_def recognition_onend_def showStatusMessage_def
        hideStatusMessage_def run_timer_def Let_def)

subsection \<open>The remote call\<close>

lemma catch_chat: "chatMessages (sendMessageToBackend_catch message err s) = chatMessages s"
  by (simp add: sendMessageToBackend_catch_def showStatusMessage_def hideStatusMessage_def Let_def
      split: option.splits)

lemma catch_effects:
  "effects (sendMessageToBackend_catch message err s) =
     effects s @ [Shown (ascii ''Error: '' @ err) (ascii ''error'')]"
  by (simp add: sendMessageToBackend_catch_def showStatusMessage_def hideStatusMessage_def Let_def
      split: option.splits)

lemma catch_timers:
  "timers (sendMessageToBackend_catch message err s) =
     timers (hideStatusMessage s) @ [(1000, Fallback message)]"
  by (simp add: sendMessageToBackend_catch_def showStatusMessage_def Let_def)

lemma hide_chat: "chatMessages (hideStatusMessage s) = chatMessages s"
  "effects (hideStatusMessage s) = effects s"
  by (simp_all add: hideStatusMessage_def split: option.splits)


lemma rendered_object:
  "rendered pf (Response code statusText (Parsed (JObj kvs))) =
     textContent_json pf (get_field (JObj kvs) (ascii ''response''))"
proof (cases "map_of kvs (ascii ''response'')")
  case None
  then show ?thesis
    by (simp add: rendered_def response_field_def textContent_json_def get_field_def)
next
  case (Some v)
  then show ?thesis
    by (cases v) (simp_all add: rendered_def response_field_def textContent_json_def get_field_def)
qed

lemma error_argument:
  "(case (case map_of kvs (ascii ''error'') of
            None \<Rightarrow> Inr (ascii ''Unknown error from API'')
          | Some e \<Rightarrow> if truthy e then to_string pf e else Inr (ascii ''Unknown error from API'')) of
      Inr msg \<Rightarrow> sendMessageToBackend_catch message msg s
    | Inl err \<Rightarrow> sendMessageToBackend_catch message err s) =
   sendMessageToBackend_catch message
     (failure_message pf (Response 200 statusText (Parsed (JObj kvs)))) s"
proof (cases "map_of kvs (ascii ''error'')")
  case None
  then show ?thesis by (simp add: failure_message_def)
next
  case (Some e)
  then show ?thesis
    by (cases e) (simp_all add: failure_message_def split: sum.splits)
qed

lemma failure_message_code:
  "200 \<le> code \<Longrightarrow> code \<le> 299 \<Longrightarrow>
   failure_message pf (Response code statusText b) = failure_message pf (Response 200 statusText b)"
  by (simp add: failure_message_def)

lemma not_success_catch:
  assumes "\<not> is_success res"
  shows "sendMessageToBackend_settled pf message now res s =
           sendMessageToBackend_catch message (failure_message pf res) s"
proof (cases res)
  case (Rejected err)
  then show ?thesis by (simp add: sendMessageToBackend_settled_def failure_message_def)
next
  case (Response code statusText b)
  show ?thesis
  proof (cases "response_ok code")
    case False
    with Response show ?thesis
      by (simp add: sendMessageToBackend_settled_def failure_message_def response_ok_def)
  next
    case True
    then have c: "200 \<le> code" "code \<le> 299" by (simp_all add: response_ok_def)
    show ?thesis
    proof (cases b)
      case (Unparseable err)
      with Response True show ?thesis
        by (simp add: sendMessageToBackend_settled_def failure_message_def response_ok_def)
    next
      case (Parsed data)
      show ?thesis
      proof (cases data)
        case (JObj kvs)
        with assms Response Parsed c
        have n: "get_field data (ascii ''status'') \<noteq> Some (JStr (ascii ''success''))"
          by (simp add: is_success_def get_field_def)
        have "sendMessageToBackend_settled pf message now res s =
              sendMessageToBackend_catch message
                (failure_message pf (Response 200 statusText (Parsed (JObj kvs)))) s"
          using Response Parsed JObj True n
          by (simp add: sendMessageToBackend_settled_def error_argument)
             (simp add: get_field_def error_argument)
        then show ?thesis
          using Response Parsed JObj failure_message_code [OF c] by simp
      qed (use Response True Parsed in
            \<open>simp_all add: sendMessageToBackend_settled_def failure_message_def response_ok_def
               get_field_def\<close>)
    qed
  qed
qed

lemma success_settled:
  assumes "is_success res"
  shows "sendMessageToBackend_settled pf message now res s =
           (case rendered pf res of
              Inr txt \<Rightarrow> addMessage Bot txt now (hideStatusMessage s)
            | Inl err \<Rightarrow> sendMessageToBackend_catch message err (hideStatusMessage s))"
proof -
  from assms obtain code statusText kvs where
    r: "res = Response code statusText (Parsed (JObj kvs))" "response_ok code"
       "get_field (JObj kvs) (ascii ''status'') = Some (JStr (ascii ''success''))"
    by (auto simp: is_success_def response_ok_def get_field_def
        split: fetch_result.splits body.splits json.splits)
  show ?thesis
    by (simp add: r sendMessageToBackend_settled_def rendered_object)
qed




subsection \<open>The fallback responder and the failed send\<close>

lemma js_index_in_range:
  assumes "0 \<le> x" and "x < real (length xs)"
  shows "\<exists>t\<in>set xs. js_index xs \<lfloor>x\<rfloor> = Val t"
proof -
  have a: "0 \<le> \<lfloor>x\<rfloor>" using assms(1) by simp
  have "x < of_int (int (length xs))" using assms(2) by simp
  then have b: "\<lfloor>x\<rfloor> < int (length xs)" by (simp only: floor_less_iff)
  from a b have "nat \<lfloor>x\<rfloor> < length xs" by linarith
  then have "xs ! nat \<lfloor>x\<rfloor> \<in> set xs" by simp
  with a b show ?thesis by (simp add: js_index_def)
qed

lemma responses_length: "map_of (responses pf lang m) c = Some ts \<Longrightarrow> length ts = 3"
  by (auto simp: responses_def split: if_splits)

lemma generateBotResponse_own:
  assumes "map_of (responses pf (currentLanguage s) m) (currentCategory s) = Some ts"
    and "0 \<le> rounded_product pf rnd 3" and "rounded_product pf rnd 3 < 3"
  shows "\<exists>t\<in>set ts. generateBotResponse pf rnd m s = Val t"
proof -
  have l: "length ts = 3" using assms(1) by (rule responses_length)
  have "\<exists>t\<in>set ts. js_index ts \<lfloor>rounded_product pf rnd 3\<rfloor> = Val t"
    using assms(2,3) l by (intro js_index_in_range) simp_all
  then show ?thesis using assms(1) l by (simp add: generateBotResponse_def obj_get_def Let_def)
qed

lemma general_own:
  "\<exists>ts. map_of (responses pf lang m) (ascii ''general'') = Some ts"
  by (simp add: responses_def)

lemma generateBotResponse_unknown:
  assumes "map_of (responses pf (currentLanguage s) m) (currentCategory s) = None"
    and "currentCategory s \<notin> set object_prototype_keys"
    and "map_of (responses pf (currentLanguage s) m) (ascii ''general'') = Some ts"
    and "0 \<le> rounded_product pf rnd 3" and "rounded_product pf rnd 3 < 3"
  shows "\<exists>t\<in>set ts. generateBotResponse pf rnd m s = Val t"
proof -
  have l: "length ts = 3" using assms(3) by (rule responses_length)
  have "\<exists>t\<in>set ts. js_index ts \<lfloor>rounded_product pf rnd 3\<rfloor> = Val t"
    using assms(4,5) l by (intro js_index_in_range) simp_all
  then show ?thesis using assms(1,2,3) l by (simp add: generateBotResponse_def obj_get_def Let_def)
qed

text \<open>
  C9 fails on the categories named like a property that every object inherits. For the
  category \<^verbatim>\<open>constructor\<close> the lookup in the table finds the inherited function, which
  is truthy, so there is no fall-back to \<^verbatim>\<open>general\<close>; the element read from it is
  \<^verbatim>\<open>undefined\<close>, and that is what the responder returns, whatever the message and the
  random number. (For every other category, \<open>generateBotResponse_template\<close> below.)
\<close>

theorem inherited_category_undefined:
  "generateBotResponse pf rnd userMessage (s\<lparr>currentCategory := ascii ''constructor''\<rparr>) = Undefined"
  by (simp add: generateBotResponse_def obj_get_def responses_def object_prototype_keys_def Let_def ascii_def)

lemma generateBotResponse_template:
  assumes "currentCategory s \<notin> set object_prototype_keys"
    and "0 \<le> rounded_product pf rnd 3" and "rounded_product pf rnd 3 < 3"
  shows "\<exists>t\<in>set (category_templates pf (currentLanguage s) m (currentCategory s)).
           generateBotResponse pf rnd m s = Val t"
proof (cases "map_of (responses pf (currentLanguage s) m) (currentCategory s)")
  case None
  obtain ts where g: "map_of (responses pf (currentLanguage s) m) (ascii ''general'') = Some ts"
    using general_own by blast
  then have "\<exists>t\<in>set ts. generateBotResponse pf rnd m s = Val t"
    using None assms by (simp add: generateBotResponse_unknown)
  then show ?thesis by (simp add: category_templates_def None g)
next
  case (Some ts)
  then have "\<exists>t\<in>set ts. generateBotResponse pf rnd m s = Val t"
    using assms(2,3) by (rule generateBotResponse_own)
  then show ?thesis by (simp add: category_templates_def Some)
qed

lemma generateBotResponse_fields:
  "currentCategory s = currentCategory s' \<Longrightarrow> currentLanguage s = currentLanguage s' \<Longrightarrow>
   generateBotResponse pf rnd m s = generateBotResponse pf rnd m s'"
  by (simp add: generateBotResponse_def)

lemma catch_fields:
  "currentLanguage (sendMessageToBackend_catch message err s) = currentLanguage s"
  "currentCategory (sendMessageToBackend_catch message err s) = currentCategory s"
  by (simp_all add: sendMessageToBackend_catch_def showStatusMessage_def hideStatusMessage_def Let_def
      split: option.splits)

lemma hide_fields:
  "currentLanguage (hideStatusMessage s) = currentLanguage s"
  "currentCategory (hideStatusMessage s) = currentCategory s"
  by (simp_all add: hideStatusMessage_def split: option.splits)

lemma catch_last:
  "timers (sendMessageToBackend_catch message err s) \<noteq> []"
  "last (timers (sendMessageToBackend_catch message err s)) = (1000, Fallback message)"
  by (simp_all add: catch_timers)

lemma send_fields:
  assumes "trim (messageInput s) \<noteq> []"
  shows "chatMessages (handleSendMessage pg now s) =
           chatMessages s @ [user_message now (trim (messageInput s))]"
    and "currentLanguage (handleSendMessage pg now s) = currentLanguage s"
    and "currentCategory (handleSendMessage pg now s) = currentCategory s"
    and "isl (getApiEndpoint pg) \<Longrightarrow> timers (handleSendMessage pg now s) \<noteq> []"
    and "isl (getApiEndpoint pg) \<Longrightarrow>
           last (timers (handleSendMessage pg now s)) = (1000, Fallback (trim (messageInput s)))"
  using assms
  by (auto simp: handleSendMessage_def sendMessageToBackend_def sendMessageToBackend_catch_def
        showStatusMessage_def hideStatusMessage_def addMessage_def user_message_def Let_def
      split: sum.splits)

lemma settle_fails:
  assumes "send_fails pf pg res"
  shows "chatMessages (settle pf pg m now res s) = chatMessages s"
    and "currentLanguage (settle pf pg m now res s) = currentLanguage s"
    and "currentCategory (settle pf pg m now res s) = currentCategory s"
    and "\<not> isl (getApiEndpoint pg) \<Longrightarrow> timers (settle pf pg m now res s) \<noteq> []"
    and "\<not> isl (getApiEndpoint pg) \<Longrightarrow>
           last (timers (settle pf pg m now res s)) = (1000, Fallback m)"
    and "isl (getApiEndpoint pg) \<Longrightarrow> settle pf pg m now res s = s"
proof -
  show "isl (getApiEndpoint pg) \<Longrightarrow> settle pf pg m now res s = s"
    by (auto simp: settle_def split: sum.splits)
  have "\<exists>err s'. (isl (getApiEndpoint pg) \<and> settle pf pg m now res s = s)
        \<or> (\<not> isl (getApiEndpoint pg) \<and> (s' = s \<or> s' = hideStatusMessage s)
            \<and> settle pf pg m now res s = sendMessageToBackend_catch m err s')"
  proof (cases "getApiEndpoint pg")
    case (Inl err)
    then show ?thesis by (simp add: settle_def)
  next
    case (Inr ep)
    show ?thesis
    proof (cases "is_success res")
      case False
      then show ?thesis
        using Inr not_success_catch [of res pf m now s] by (auto simp: settle_def)
    next
      case True
      with assms Inr obtain err where "rendered pf res = Inl err"
        by (auto simp: send_fails_def split: sum.splits)
      then show ?thesis
        using Inr True success_settled [of res pf m now s] by (auto simp: settle_def)
    qed
  qed
  then obtain err s' where
    d: "(isl (getApiEndpoint pg) \<and> settle pf pg m now res s = s)
        \<or> (\<not> isl (getApiEndpoint pg) \<and> (s' = s \<or> s' = hideStatusMessage s)
            \<and> settle pf pg m now res s = sendMessageToBackend_catch m err s')"
    by blast
  from d show "chatMessages (settle pf pg m now res s) = chatMessages s"
    by (auto simp: catch_chat hide_chat)
  from d show "currentLanguage (settle pf pg m now res s) = currentLanguage s"
    by (auto simp: catch_fields hide_fields)
  from d show "currentCategory (settle pf pg m now res s) = currentCategory s"
    by (auto simp: catch_fields hide_fields)
  from d show "\<not> isl (getApiEndpoint pg) \<Longrightarrow> timers (settle pf pg m now res s) \<noteq> []"
    by (auto simp: catch_last)
  from d show "\<not> isl (getApiEndpoint pg) \<Longrightarrow>
           last (timers (settle pf pg m now res s)) = (1000, Fallback m)"
    by (auto simp: catch_last)
qed

lemma category_change_fields:
  "chatMessages (handleCategoryChange category label now s) =
     chatMessages s @ [bot_message now
        (ascii ''Switched to '' @ trim label @ ascii '' support. What can I help you with?'')]"
  "currentCategory (handleCategoryChange category label now s) = category"
  "currentLanguage (handleCategoryChange category label now s) = currentLanguage s"
  "timers (handleCategoryChange category label now s) = timers s"
  by (simp_all add: handleCategoryChange_def addMessage_def bot_message_def Let_def)

lemma timeout_last_fallback:
  "timers s \<noteq> [] \<Longrightarrow> last (timers s) = (d, Fallback m) \<Longrightarrow>
   timeout pf rnd now (length (timers s) - 1) s =
     fallback_timeout pf rnd m now (s\<lparr>timers := butlast (timers s)\<rparr>)"
  by (simp add: timeout_def run_timer_def last_conv_nth butlast_conv_take)

lemma fallback_log:
  "chatMessages (fallback_timeout pf rnd m now s) =
     chatMessages s @ [bot_message now (textContent pf (generateBotResponse pf rnd m s))]"
  by (simp add: fallback_timeout_def addMessage_def bot_message_def Let_def)

lemma pending_last:
  assumes "trim (messageInput s0) \<noteq> []" and "send_fails pf pg res"
  shows "timers (settle pf pg (trim (messageInput s0)) t2 res (handleSendMessage pg t1 s0)) \<noteq> []"
    and "last (timers (settle pf pg (trim (messageInput s0)) t2 res (handleSendMessage pg t1 s0)))
          = (1000, Fallback (trim (messageInput s0)))"
  using settle_fails(4,5,6) [OF assms(2)] send_fields(4,5) [OF assms(1)]
  by (cases "isl (getApiEndpoint pg)"; simp)+

lemma failed_send_log:
  assumes "trim (messageInput s0) \<noteq> []" and "send_fails pf pg res"
  shows "chatMessages (failed_send pf pg res rnd ck s0) =
     chatMessages s0 @
       [user_message (at_send ck) (trim (messageInput s0)),
        bot_message (at_fire ck)
          (textContent pf (generateBotResponse pf rnd (trim (messageInput s0)) s0))]"
proof -
  let ?m = "trim (messageInput s0)"
  let ?s1 = "handleSendMessage pg (at_send ck) s0"
  let ?s2 = "settle pf pg ?m (at_settle ck) res ?s1"
  have c2: "chatMessages ?s2 = chatMessages s0 @ [user_message (at_send ck) ?m]"
    by (simp add: settle_fails(1) [OF assms(2)] send_fields [OF assms(1)])
  have f2: "currentCategory ?s2 = currentCategory s0" "currentLanguage ?s2 = currentLanguage s0"
    by (simp_all add: settle_fails(2,3) [OF assms(2)] send_fields [OF assms(1)])
  have g: "generateBotResponse pf rnd ?m (?s2\<lparr>timers := butlast (timers ?s2)\<rparr>)
         = generateBotResponse pf rnd ?m s0"
    by (rule generateBotResponse_fields) (simp_all add: f2)
  have "failed_send pf pg res rnd ck s0 =
        fallback_timeout pf rnd ?m (at_fire ck) (?s2\<lparr>timers := butlast (timers ?s2)\<rparr>)"
    unfolding failed_send_def Let_def
    using pending_last [OF assms] by (rule timeout_last_fallback)
  then show ?thesis by (simp add: fallback_log c2 g)
qed

lemma change_during_delay_log:
  assumes "trim (messageInput s0) \<noteq> []" and "send_fails pf pg res"
  shows "chatMessages (change_during_delay pf pg res rnd category label ck s0) =
     chatMessages s0 @
       [user_message (at_send ck) (trim (messageInput s0)),
        bot_message (at_change ck)
          (ascii ''Switched to '' @ trim label @ ascii '' support. What can I help you with?''),
        bot_message (at_fire ck)
          (textContent pf (generateBotResponse pf rnd (trim (messageInput s0))
             (s0\<lparr>currentCategory := category\<rparr>)))]"
proof -
  let ?m = "trim (messageInput s0)"
  let ?s1 = "handleSendMessage pg (at_send ck) s0"
  let ?s2 = "settle pf pg ?m (at_settle ck) res ?s1"
  let ?s3 = "handleCategoryChange category label (at_change ck) ?s2"
  have t3: "timers ?s3 \<noteq> []" "last (timers ?s3) = (1000, Fallback ?m)"
    using pending_last [OF assms] by (simp_all add: category_change_fields)
  have c3: "chatMessages ?s3 = chatMessages s0 @
       [user_message (at_send ck) ?m,
        bot_message (at_change ck)
          (ascii ''Switched to '' @ trim label @ ascii '' support. What can I help you with?'')]"
    by (simp add: category_change_fields settle_fails(1) [OF assms(2)] send_fields [OF assms(1)])
  have f3: "currentCategory ?s3 = category" "currentLanguage ?s3 = currentLanguage s0"
    by (simp_all add: category_change_fields settle_fails(2,3) [OF assms(2)]
          send_fields [OF assms(1)])
  have g: "generateBotResponse pf rnd ?m (?s3\<lparr>timers := butlast (timers ?s3)\<rparr>)
         = generateBotResponse pf rnd ?m (s0\<lparr>currentCategory := category\<rparr>)"
    by (rule generateBotResponse_fields) (simp_all add: f3)
  have "change_during_delay pf pg res rnd category label ck s0 =
        fallback_timeout pf rnd ?m (at_fire ck) (?s3\<lparr>timers := butlast (timers ?s3)\<rparr>)"
    unfolding change_during_delay_def Let_def using t3 by (rule timeout_last_fallback)
  then show ?thesis by (simp add: fallback_log c3 g)
qed

lemma change_during_call_log:
  assumes "trim (messageInput s0) \<noteq> []" and "send_fails pf pg res"
  shows "chatMessages (change_during_call pf pg res rnd category label ck s0) =
     chatMessages s0 @
       [user_message (at_send ck) (trim (messageInput s0)),
        bot_message (at_change ck)
          (ascii ''Switched to '' @ trim label @ ascii '' support. What can I help you with?''),
        bot_message (at_fire ck)
          (textContent pf (generateBotResponse pf rnd (trim (messageInput s0))
             (s0\<lparr>currentCategory := category\<rparr>)))]"
proof -
  let ?m = "trim (messageInput s0)"
  let ?s1 = "handleSendMessage pg (at_send ck) s0"
  let ?s2 = "handleCategoryChange category label (at_change ck) ?s1"
  let ?s3 = "settle pf pg ?m (at_settle ck) res ?s2"
  have t3: "timers ?s3 \<noteq> []" "last (timers ?s3) = (1000, Fallback ?m)"
    using settle_fails(4,5,6) [OF assms(2), of ?m "at_settle ck" ?s2] send_fields(4,5) [OF assms(1)]
    by (cases "isl (getApiEndpoint pg)"; simp add: category_change_fields)+
  have c3: "chatMessages ?s3 = chatMessages s0 @
       [user_message (at_send ck) ?m,
        bot_message (at_change ck)
          (ascii ''Switched to '' @ trim label @ ascii '' support. What can I help you with?'')]"
    by (simp add: category_change_fields settle_fails(1) [OF assms(2)] send_fields [OF assms(1)])
  have f3: "currentCategory ?s3 = category" "currentLanguage ?s3 = currentLanguage s0"
    by (simp_all add: category_change_fields settle_fails(2,3) [OF assms(2)]
          send_fields [OF assms(1)])
  have g: "generateBotResponse pf rnd ?m (?s3\<lparr>timers := butlast (timers ?s3)\<rparr>)
         = generateBotResponse pf rnd ?m (s0\<lparr>currentCategory := category\<rparr>)"
    by (rule generateBotResponse_fields) (simp_all add: f3)
  have "change_during_call pf pg res rnd category label ck s0 =
        fallback_timeout pf rnd ?m (at_fire ck) (?s3\<lparr>timers := butlast (timers ?s3)\<rparr>)"
    unfolding change_during_call_def Let_def using t3 by (rule timeout_last_fallback)
  then show ?thesis by (simp add: fallback_log c3 g)
qed

lemma settle_effects:
  assumes "getApiEndpoint pg = Inr ep" and "send_fails pf pg res"
  shows "effects (settle pf pg m now res s) =
           effects s @ [Shown (ascii ''Error: '' @ remote_error pf res) (ascii ''error'')]"
proof (cases "is_success res")
  case False
  then show ?thesis
    using assms(1) by (simp add: settle_def not_success_catch catch_effects remote_error_def)
next
  case True
  with assms obtain err where "rendered pf res = Inl err"
    by (auto simp: send_fails_def split: sum.splits)
  then show ?thesis
    using assms(1) True
    by (simp add: settle_def success_settled catch_effects hide_chat remote_error_def)
qed

lemma failed_send_effects:
  assumes "trim (messageInput s0) \<noteq> []" and "send_fails pf pg res"
    and "getApiEndpoint pg = Inr ep"
  shows "effects (failed_send pf pg res rnd ck s0) =
     effects s0 @
       [Appended (user_message (at_send ck) (trim (messageInput s0))),
        Shown (ascii ''Processing your request...'') (ascii ''info''),
        Fetch \<lparr>url = ep @ ascii ''/api/chat'',
               req_message = trim (messageInput s0),
               req_language = currentLanguage s0, req_category = currentCategory s0\<rparr>,
        Shown (ascii ''Error: '' @ remote_error pf res) (ascii ''error''),
        Appended (bot_message (at_fire ck)
          (textContent pf (generateBotResponse pf rnd (trim (messageInput s0)) s0)))]"
proof -
  let ?m = "trim (messageInput s0)"
  let ?s1 = "handleSendMessage pg (at_send ck) s0"
  let ?s2 = "settle pf pg ?m (at_settle ck) res ?s1"
  have e1: "effects ?s1 = effects s0 @
       [Appended (user_message (at_send ck) ?m),
        Shown (ascii ''Processing your request...'') (ascii ''info''),
        Fetch \<lparr>url = ep @ ascii ''/api/chat'', req_message = ?m,
               req_language = currentLanguage s0, req_category = currentCategory s0\<rparr>]"
    using assms(1,3)
    by (simp add: handleSendMessage_def sendMessageToBackend_def showStatusMessage_def
          addMessage_def user_message_def Let_def)
  have e2: "effects ?s2 = effects ?s1 @ [Shown (ascii ''Error: '' @ remote_error pf res) (ascii ''error'')]"
    using assms(3,2) by (rule settle_effects)
  have f2: "currentCategory ?s2 = currentCategory s0" "currentLanguage ?s2 = currentLanguage s0"
    by (simp_all add: settle_fails(2,3) [OF assms(2)] send_fields [OF assms(1)])
  have g: "generateBotResponse pf rnd ?m (?s2\<lparr>timers := butlast (timers ?s2)\<rparr>)
         = generateBotResponse pf rnd ?m s0"
    by (rule generateBotResponse_fields) (simp_all add: f2)
  have "failed_send pf pg res rnd ck s0 =
        fallback_timeout pf rnd ?m (at_fire ck) (?s2\<lparr>timers := butlast (timers ?s2)\<rparr>)"
    unfolding failed_send_def Let_def
    using pending_last [OF assms(1,2)] by (rule timeout_last_fallback)
  then show ?thesis
    by (simp add: fallback_timeout_def addMessage_def bot_message_def Let_def e2 e1 g)
qed

lemma failed_send_fallback:
  assumes "trim (messageInput s0) \<noteq> []" and "send_fails pf pg res"
    and "getApiEndpoint pg = Inr ep"
    and "0 \<le> rounded_product pf rnd 3" and "rounded_product pf rnd 3 < 3"
    and "currentCategory s0 \<notin> set object_prototype_keys"
  shows "\<exists>t\<in>set (category_templates pf (currentLanguage s0) (trim (messageInput s0))
                    (currentCategory s0)).
           chatMessages (failed_send pf pg res rnd ck s0) =
             chatMessages s0 @
               [user_message (at_send ck) (trim (messageInput s0)), bot_message (at_fire ck) t]
           \<and> effects (failed_send pf pg res rnd ck s0) =
             effects s0 @
               [Appended (user_message (at_send ck) (trim (messageInput s0))),
                Shown (ascii ''Processing your request...'') (ascii ''info''),
                Fetch \<lparr>url = ep @ ascii ''/api/chat'',
                       req_message = trim (messageInput s0),
                       req_language = currentLanguage s0, req_category = currentCategory s0\<rparr>,
                Shown (ascii ''Error: '' @ remote_error pf res) (ascii ''error''),
                Appended (bot_message (at_fire ck) t)]"
proof -
  obtain t where t: "t \<in> set (category_templates pf (currentLanguage s0) (trim (messageInput s0))
                    (currentCategory s0))"
      "generateBotResponse pf rnd (trim (messageInput s0)) s0 = Val t"
    using generateBotResponse_template [OF assms(6,4,5)] by blast
  have x: "textContent pf (Val t) = t" by (simp add: textContent_def toString_def)
  show ?thesis
    using t(1)
    by (auto simp: failed_send_log [OF assms(1,2)] failed_send_effects [OF assms(1,2,3)] t(2) x)
qed

lemma fallback_drawn_at_fire:
  assumes "trim (messageInput s0) \<noteq> []" and "send_fails pf pg res"
    and "0 \<le> rounded_product pf rnd 3" and "rounded_product pf rnd 3 < 3"
    and "category \<notin> set object_prototype_keys"
  shows "\<exists>t\<in>set (category_templates pf (currentLanguage s0) (trim (messageInput s0)) category).
           chatMessages (change_during_delay pf pg res rnd category label ck s0) =
             chatMessages s0 @
               [user_message (at_send ck) (trim (messageInput s0)),
                bot_message (at_change ck)
                  (ascii ''Switched to '' @ trim label @ ascii '' support. What can I help you with?''),
                bot_message (at_fire ck) t]
           \<and> chatMessages (change_during_call pf pg res rnd category label ck s0) =
             chatMessages s0 @
               [user_message (at_send ck) (trim (messageInput s0)),
                bot_message (at_change ck)
                  (ascii ''Switched to '' @ trim label @ ascii '' support. What can I help you with?''),
                bot_message (at_fire ck) t]"
proof -
  let ?s = "s0\<lparr>currentCategory := category\<rparr>"
  have "currentCategory ?s \<notin> set object_prototype_keys" using assms(5) by simp
  from generateBotResponse_template [OF this assms(3,4)]
  obtain t where t: "t \<in> set (category_templates pf (currentLanguage s0) (trim (messageInput s0)) category)"
      "generateBotResponse pf rnd (trim (messageInput s0)) ?s = Val t"
    by auto
  have x: "textContent pf (Val t) = t" by (simp add: textContent_def toString_def)
  show ?thesis
    using t(1) by (auto simp: change_during_delay_log [OF assms(1,2)]
        change_during_call_log [OF assms(1,2)] t(2) x)
qed

text \<open>
  C3 fails when the active category is named like an inherited property, by the defect
  shown for C9: with the category \<^verbatim>\<open>constructor\<close>, a send that fails ends with a message
  of the bot whose text is empty, not a template filled with the user's text. (For every
  other category, \<open>failed_send_fallback\<close> above gives the message and the order.)
\<close>

theorem inherited_category_fallback_empty:
  "chatMessages (failed_send some_platform hosted_page bad_reply (1 / 2) morning constructor_question) =
     [greeting,
      user_message (ascii ''10:00:00'') (ascii ''hi''),
      bot_message (ascii ''10:00:03'') []]"
proof -
  have m: "trim (messageInput constructor_question) = ascii ''hi''"
    by (simp add: constructor_question_def trim_def isWhiteSpace_def ascii_def)
  have h1: "trim (messageInput constructor_question) \<noteq> []"
    by (simp add: m) (simp add: ascii_def)
  have h2: "send_fails some_platform hosted_page bad_reply"
    by (simp add: send_fails_def is_success_def bad_reply_def split: sum.splits)
  have g: "generateBotResponse some_platform (1 / 2) (ascii ''hi'') constructor_question = Undefined"
    by (simp add: generateBotResponse_def responses_def obj_get_def object_prototype_keys_def
          constructor_question_def Let_def ascii_def)
  have c: "chatMessages constructor_question = [greeting]"
    by (simp add: constructor_question_def loaded_def)
  have k: "at_send morning = ascii ''10:00:00''" "at_fire morning = ascii ''10:00:03''"
    by (simp_all add: morning_def)
  show ?thesis
    by (simp add: failed_send_log [OF h1 h2] m g c k textContent_def)
qed

text \<open>
  C10 fails when the category is changed to one named like an inherited property, by
  the defect shown for C9: a send fails, the category is changed to \<^verbatim>\<open>constructor\<close>
  before the fallback timer fires (after the failure, or while the call was under way),
  and the fallback message has an empty text; it is drawn neither from a table of the
  new category nor from \<^verbatim>\<open>general\<close>. (For a change to any other category,
  \<open>fallback_drawn_at_fire\<close> above: the text is a template of the new category, or of
  \<^verbatim>\<open>general\<close> when it has none, filled with the message trimmed at the click on send.)
\<close>

theorem category_change_to_inherited_empty:
  "chatMessages (change_during_delay some_platform hosted_page bad_reply (1 / 2)
      (ascii ''constructor'') (ascii '' Constructor '') morning account_question) =
     [greeting,
      user_message (ascii ''10:00:00'') (ascii ''reset my password''),
      bot_message (ascii ''10:00:02'')
        (ascii ''Switched to Constructor support. What can I help you with?''),
      bot_message (ascii ''10:00:03'') []]
   \<and> chatMessages (change_during_call some_platform hosted_page bad_reply (1 / 2)
      (ascii ''constructor'') (ascii '' Constructor '') morning account_question) =
     [greeting,
      user_message (ascii ''10:00:00'') (ascii ''reset my password''),
      bot_message (ascii ''10:00:02'')
        (ascii ''Switched to Constructor support. What can I help you with?''),
      bot_message (ascii ''10:00:03'') []]"
proof -
  have m: "trim (messageInput account_question) = ascii ''reset my password''"
    by (simp add: account_question_def trim_def isWhiteSpace_def ascii_def)
  have h1: "trim (messageInput account_question) \<noteq> []"
    by (simp add: m) (simp add: ascii_def)
  have h2: "send_fails some_platform hosted_page bad_reply"
    by (simp add: send_fails_def is_success_def bad_reply_def split: sum.splits)
  have g: "generateBotResponse some_platform (1 / 2) (ascii ''reset my password'')
             (account_question\<lparr>currentCategory := ascii ''constructor''\<rparr>) = Undefined"
    by (simp add: generateBotResponse_def responses_def obj_get_def object_prototype_keys_def
          Let_def ascii_def)
  have l: "trim (ascii '' Constructor '') = ascii ''Constructor''"
    by (simp add: trim_def isWhiteSpace_def ascii_def)
  have c: "chatMessages account_question = [greeting]"
    by (simp add: account_question_def loaded_def)
  have k: "at_send morning = ascii ''10:00:00''" "at_change morning = ascii ''10:00:02''"
    "at_fire morning = ascii ''10:00:03''"
    by (simp_all add: morning_def)
  show ?thesis
    by (simp add: change_during_delay_log [OF h1 h2] change_during_call_log [OF h1 h2]
          m g l c k textContent_def)
       (simp add: ascii_def)
qed

end
